theory Spec2Isabelle
  imports Complex_Main "HOL-Library.Log_Nat"
begin

section \<open>The compare page of the rustc-perf site: tabs, URL state and tab summaries\<close>

text \<open>
  The development embeds the script of the compare page (\<^verbatim>\<open>src/unnamed/part_000\<close>),
  the tab strip (\<^verbatim>\<open>components/tabs.vue\<close>) and the summary table
  (\<^verbatim>\<open>summary/tab-summary-table.vue\<close>). Reactive references become fields of a
  record that is passed explicitly, computed values become functions of that record, a
  \<^verbatim>\<open>TypeError\<close> becomes the left summand of a sum type, and rendered markup becomes a
  tree of virtual nodes.
\<close>

subsection \<open>Tabs and URL parameters\<close>

datatype Tab = CompileTime | Runtime | Bootstrap | ArtifactSize

text \<open>
  Modelled from the spec: the enum \<^verbatim>\<open>Tab\<close> is declared in \<^verbatim>\<open>./types\<close>, which is not
  among the sources. The spec gives its URL tokens (section 6), and \<^verbatim>\<open>tab as string\<close>
  in \<^verbatim>\<open>storeTabToUrl\<close> is the string value of the enum member.
\<close>

fun Tab_as_string :: "Tab \<Rightarrow> string" where
  "Tab_as_string CompileTime = ''compile''"
| "Tab_as_string Runtime = ''runtime''"
| "Tab_as_string Bootstrap = ''bootstrap''"
| "Tab_as_string ArtifactSize = ''artifact-size''"

text \<open>\<^verbatim>\<open>Dict<string>\<close>: an object used as a dictionary from parameter names to values.\<close>

type_synonym 'v Dict = "string \<rightharpoonup> 'v"

text \<open>
  Reading \<^verbatim>\<open>obj[key]\<close> on an object literal looks the key up among the literal's own
  properties and then along the prototype chain, which for a literal is
  \<^verbatim>\<open>Object.prototype\<close>. The names below are the properties of \<^verbatim>\<open>Object.prototype\<close>
  (ECMAScript, section 20.1.3, with the legacy accessors of its annex B). Only a key
  found in neither place reads as \<^verbatim>\<open>undefined\<close>.
\<close>

definition Object_prototype_keys :: "string list" where
  "Object_prototype_keys =
     [''constructor'', ''hasOwnProperty'', ''isPrototypeOf'', ''propertyIsEnumerable'',
      ''toLocaleString'', ''toString'', ''valueOf'', ''__proto__'',
      ''__defineGetter__'', ''__defineSetter__'', ''__lookupGetter__'', ''__lookupSetter__'']"

datatype 'v property = OwnValue 'v | PrototypeMember string | Undefined

definition object_get :: "(string \<times> 'v) list \<Rightarrow> string \<Rightarrow> 'v property" where
  "object_get obj key =
     (case map_of obj key of
        Some v \<Rightarrow> OwnValue v
      | None \<Rightarrow> if key \<in> set Object_prototype_keys then PrototypeMember key else Undefined)"

text \<open>
  What \<^verbatim>\<open>loadTabFromUrl\<close> can return at run time: a tab, \<^verbatim>\<open>null\<close>, or the member of
  \<^verbatim>\<open>Object.prototype\<close> that the lookup reached.
\<close>

datatype tab_or_null = IsTab Tab | Null | NotATab string

definition loadTabFromUrl :: "string Dict \<Rightarrow> tab_or_null" where
  "loadTabFromUrl urlParams =
     (let tab = (case urlParams ''tab'' of Some s \<Rightarrow> s | None \<Rightarrow> '''');
          tabs = [(''compile'', CompileTime),
                  (''runtime'', Runtime),
                  (''bootstrap'', Bootstrap),
                  (''artifact-size'', ArtifactSize)]
      in case object_get tabs tab of
           OwnValue t \<Rightarrow> IsTab t
         | PrototypeMember m \<Rightarrow> NotATab m
         | Undefined \<Rightarrow> Null)"

text \<open>\<^verbatim>\<open>const initialTab = loadTabFromUrl(urlParams) ?? Tab.CompileTime\<close>\<close>

definition initialTab :: "string Dict \<Rightarrow> tab_or_null" where
  "initialTab urlParams =
     (case loadTabFromUrl urlParams of Null \<Rightarrow> IsTab CompileTime | r \<Rightarrow> r)"

subsection \<open>Comparison data\<close>

text \<open>
  Modelled from the spec: \<^verbatim>\<open>CompareResponse\<close> is declared in \<^verbatim>\<open>./types\<close>. Per section 3
  of the spec each of its two artifacts carries \<^verbatim>\<open>bootstrap_total\<close>, a duration counted
  in nanoseconds, and \<^verbatim>\<open>component_sizes\<close>, a mapping from component name to byte size.
  Both are integer-valued JavaScript numbers and are held as \<open>int\<close>; sums and differences
  of integers below \<open>2 ^ 53\<close> are exact in JavaScript. The mapping is kept as the list of
  its entries in enumeration order, which is what \<^verbatim>\<open>Object.keys\<close> and
  \<^verbatim>\<open>Object.values\<close> walk.
\<close>

record ArtifactDescription =
  bootstrap_total :: int
  component_sizes :: "(string \<times> int) list"

record CompareResponse =
  a :: ArtifactDescription
  b :: ArtifactDescription

definition Object_keys :: "(string \<times> 'v) list \<Rightarrow> string list" where
  "Object_keys obj = map fst obj"

definition Object_values :: "(string \<times> 'v) list \<Rightarrow> 'v list" where
  "Object_values obj = map snd obj"

text \<open>
  Modelled from the spec: \<^verbatim>\<open>SummaryGroup\<close> is declared in \<^verbatim>\<open>./data\<close>; section 3 of the
  spec names the three fields of \<^verbatim>\<open>all\<close> that the page reads. The range and the average
  are only handed on to child components.
\<close>

record Summary =
  count :: int
  range' :: "rat \<times> rat"
  average :: rat

record SummaryGroup =
  all :: Summary

subsection \<open>The page's reactive state\<close>

text \<open>
  The functions of \<^verbatim>\<open>utils/navigation\<close> that the page calls are not among the sources.
  They are parameters of the model and act on the state \<open>'w\<close> of the browser window
  (its location and history): \<^verbatim>\<open>getUrlParams\<close> reads a dictionary from it and
  \<^verbatim>\<open>changeUrl\<close> updates it from the dictionary it is given.
\<close>

record 'w navigation =
  getUrlParams :: "'w \<Rightarrow> string Dict"
  changeUrl :: "string Dict \<Rightarrow> 'w \<Rightarrow> 'w"

text \<open>
  The refs \<^verbatim>\<open>tab\<close>, \<^verbatim>\<open>data\<close>, \<^verbatim>\<open>compileSummary\<close> and \<^verbatim>\<open>runtimeSummary\<close> of the script,
  and the browser window.
\<close>

record 'w page =
  tab :: Tab
  data :: "CompareResponse option"
  compileSummary :: "SummaryGroup option"
  runtimeSummary :: "SummaryGroup option"
  window :: 'w

text \<open>
  \<^verbatim>\<open>storeTabToUrl\<close> assigns to the dictionary it is given and passes it to
  \<^verbatim>\<open>changeUrl\<close>. The model returns the dictionary after the assignment together with
  the window after the call.
\<close>

definition storeTabToUrl ::
  "'w navigation \<Rightarrow> string Dict \<Rightarrow> Tab \<Rightarrow> 'w \<Rightarrow> string Dict \<times> 'w" where
  "storeTabToUrl nav urlParams t w =
     (let urlParams = urlParams(''tab'' \<mapsto> Tab_as_string t)
      in (urlParams, changeUrl nav urlParams w))"

definition changeTab :: "'w navigation \<Rightarrow> Tab \<Rightarrow> 'w page \<Rightarrow> 'w page" where
  "changeTab nav newTab st =
     (let st = st\<lparr>tab := newTab\<rparr>
      in st\<lparr>window :=
              snd (storeTabToUrl nav (getUrlParams nav (window st)) newTab (window st))\<rparr>)"

text \<open>
  Modelled from the spec: \<^verbatim>\<open>getUrlParams\<close> and \<^verbatim>\<open>changeUrl\<close> live in
  \<^verbatim>\<open>utils/navigation\<close>, which is not among the sources. Per sections 4.1 and 6 of the
  spec the page reads and writes the parameters of the URL query string, and a tab switch
  persists the new tab into the query string, preserving all other existing
  parameters. The state of the window is the mapping from the parameters of the query
  string to their values: \<^verbatim>\<open>getUrlParams\<close> reads it, and \<^verbatim>\<open>changeUrl\<close> sets in it every
  parameter of the dictionary it is given. The spec does not say what becomes of a
  parameter of the URL that the dictionary lacks: with \<open>keep\<close> it stays, without
  \<open>keep\<close> the dictionary is the whole new query string.
\<close>

definition utils_navigation :: "bool \<Rightarrow> (string Dict) navigation" where
  "utils_navigation keep =
     \<lparr>getUrlParams = (\<lambda>query. query),
      changeUrl = (\<lambda>params query. if keep then query ++ params else params)\<rparr>"

definition artifactSizeAvailable :: "'w page \<Rightarrow> bool" where
  "artifactSizeAvailable st =
     (case data st of
        None \<Rightarrow> False
      | Some d \<Rightarrow> 0 < length (Object_keys (component_sizes (a d)))
                \<or> 0 < length (Object_keys (component_sizes (b d))))"

definition activeTab :: "'w page \<Rightarrow> Tab" where
  "activeTab st =
     (if tab st = ArtifactSize \<and> \<not> artifactSizeAvailable st then CompileTime else tab st)"

subsection \<open>JavaScript numbers: division and \<^verbatim>\<open>toFixed\<close>\<close>

text \<open>
  A finite JavaScript number is a binary64 value; it is represented by the rational it
  denotes. An arithmetic operation returns the exact result rounded to the nearest
  number with a 53-bit significand, ties to the even significand. \<open>round_double\<close>
  is that rounding for results in the normal range (magnitudes from \<open>2 ^ -1022\<close> up to
  \<open>2 ^ 1024\<close>), where every quotient and product of this page lies; signed zeros,
  infinities and NaN do not arise, since the page divides only by \<^verbatim>\<open>10e8\<close> and by a
  positive \<^verbatim>\<open>bootstrapA\<close>.
\<close>

definition round_half_even :: "rat \<Rightarrow> int" where
  "round_half_even x =
     (let f = \<lfloor>x\<rfloor>; r = x - of_int f
      in if r < 1 / 2 then f else if 1 / 2 < r then f + 1 else if even f then f else f + 1)"

definition round_double :: "rat \<Rightarrow> rat" where
  "round_double x =
     (if x = 0 then 0
      else let (p, q) = quotient_of \<bar>x\<bar>;
               k0 = 53 + bitlen q - bitlen p;
               k = (if \<bar>x\<bar> * 2 powi k0 < 2 ^ 53 then k0 else k0 - 1)
           in sgn x * of_int (round_half_even (\<bar>x\<bar> * 2 powi k)) / 2 powi k)"

definition js_div :: "rat \<Rightarrow> rat \<Rightarrow> rat" where
  "js_div x y = round_double (x / y)"

definition js_mul :: "rat \<Rightarrow> rat \<Rightarrow> rat" where
  "js_mul x y = round_double (x * y)"

fun decimal :: "nat \<Rightarrow> string" where
  "decimal n =
     (if n < 10 then [''0123456789'' ! n]
      else decimal (n div 10) @ [''0123456789'' ! (n mod 10)])"

declare decimal.simps [simp del]

text \<open>
  Functions of the page's environment that are not among the sources: the runtime's
  \<^verbatim>\<open>Number::toString\<close>, which \<^verbatim>\<open>toFixed\<close> falls back to for magnitudes of \<open>10 ^ 21\<close>
  and more, and the helpers imported from \<^verbatim>\<open>./shared\<close>. They are parameters of the
  model.
\<close>

record env =
  Number_toString :: "rat \<Rightarrow> string"
  diffClass :: "int \<Rightarrow> string"
  formatPercentChange :: "int \<Rightarrow> int \<Rightarrow> string"
  formatSize :: "int \<Rightarrow> string"
  percentClass :: "rat \<Rightarrow> string"

text \<open>
  \<^verbatim>\<open>Number.prototype.toFixed\<close> (ECMAScript, section 21.1.3.3) on a finite number: the
  sign is split off, \<open>n\<close> is the integer for which \<open>n / 10 ^ f\<close> is closest to \<open>x\<close>
  (the larger one of two), its decimal digits are padded with zeros to \<open>f + 1\<close>
  characters and the point is put before the last \<open>f\<close> (\<open>fixed_digits\<close>).
\<close>

definition fixed_digits :: "nat \<Rightarrow> nat \<Rightarrow> string" where
  "fixed_digits f n =
     (let m = (if n = 0 then ''0'' else decimal n)
      in if f \<noteq> 0
         then let k = length m;
                  m = (if k \<le> f then replicate (f + 1 - k) (CHR ''0'') @ m else m);
                  k = (if k \<le> f then f + 1 else k)
              in take (k - f) m @ ''.'' @ drop (k - f) m
         else m)"

definition toFixed :: "env \<Rightarrow> nat \<Rightarrow> rat \<Rightarrow> string" where
  "toFixed e f x0 =
     (let s = (if x0 < 0 then ''-'' else '''');
          x = (if x0 < 0 then - x0 else x0)
      in if 10 ^ 21 \<le> x then s @ Number_toString e x
         else let n = nat \<lfloor>x * 10 ^ f + 1 / 2\<rfloor>
              in s @ fixed_digits f n)"

subsection \<open>Summary formatting helpers\<close>

text \<open>The literal \<^verbatim>\<open>10e8\<close> is \<open>10 * 10 ^ 8\<close>.\<close>

definition formatBootstrap :: "env \<Rightarrow> int \<Rightarrow> string" where
  "formatBootstrap e v =
     (if 0 < v then toFixed e 3 (js_div (of_int v) 1000000000) else ''???'')"

definition formatArtifactSize :: "env \<Rightarrow> int \<Rightarrow> string" where
  "formatArtifactSize e size' = (if size' = 0 then ''???'' else formatSize e size')"

subsection \<open>Rendered markup\<close>

text \<open>
  A virtual node is a text, an element with its tag, its \<^verbatim>\<open>class\<close> attribute and its
  children, or one of the child components with its props. A child that is the value
  \<^verbatim>\<open>false\<close> of \<^verbatim>\<open>cond && (...)\<close> renders nothing and is left out of the list.
\<close>

datatype vnode =
    Text string
  | Element string "string option" "vnode list"
  | TabSummaryTable_of "SummaryGroup option"
  | SummaryRange_of "rat \<times> rat"
  | SummaryPercentValue_of string rat

fun texts :: "vnode \<Rightarrow> string list" where
  "texts (Text s) = [s]"
| "texts (Element t c ks) = concat (map texts ks)"
| "texts (TabSummaryTable_of s) = []"
| "texts (SummaryRange_of r) = []"
| "texts (SummaryPercentValue_of c v) = []"

fun elements :: "vnode \<Rightarrow> (string \<times> string option) list" where
  "elements (Text s) = []"
| "elements (Element t c ks) = (t, c) # concat (map elements ks)"
| "elements (TabSummaryTable_of s) = []"
| "elements (SummaryRange_of r) = []"
| "elements (SummaryPercentValue_of c v) = []"

fun children :: "vnode \<Rightarrow> vnode list" where
  "children (Element t c ks) = ks"
| "children v = []"

subsection \<open>The summary table component\<close>

definition TabSummaryTable :: "env \<Rightarrow> SummaryGroup \<Rightarrow> vnode" where
  "TabSummaryTable e summary =
     (if 0 < count (all summary)
      then Element ''div'' None
             [Element ''div'' (Some ''table-wrapper'')
                [Element ''table'' None
                   [Element ''thead'' None
                      [Element ''tr'' None
                         [Element ''th'' None [Text ''Range''],
                          Element ''th'' None [Text ''Mean'']]],
                    Element ''thead'' None
                      [Element ''tr'' None
                         [Element ''td'' None [SummaryRange_of (range' (all summary))],
                          Element ''td'' None
                            [SummaryPercentValue_of
                               (percentClass e (average (all summary)))
                               (average (all summary))]]]]]]
      else Element ''div'' None [Element ''span'' None [Text ''No results'']])"

subsection \<open>Tab descriptors\<close>

datatype error = TypeError

record tab_descriptor =
  tooltip :: string
  title :: string
  selected :: bool
  tab_id :: Tab
  summary :: vnode
  isVisible :: bool

text \<open>
  The block that builds \<^verbatim>\<open>tabs\<close> runs once, in the page's setup. Its first statement
  reads \<^verbatim>\<open>data.value.a\<close>; when \<^verbatim>\<open>data.value\<close> is still \<^verbatim>\<open>null\<close> this throws a
  \<^verbatim>\<open>TypeError\<close> and nothing after it runs.
\<close>

definition tabs :: "env \<Rightarrow> 'w page \<Rightarrow> error + tab_descriptor list" where
  "tabs e st =
     (case data st of
        None \<Rightarrow> Inl TypeError
      | Some d \<Rightarrow>
          let bootstrapA = bootstrap_total (a d);
              bootstrapB = bootstrap_total (b d);
              bootstrapValid = (0 < bootstrapA \<and> 0 < bootstrapB);
              totalSizeA = foldl (\<lambda>x y. x + y) 0 (Object_values (component_sizes (a d)));
              totalSizeB = foldl (\<lambda>x y. x + y) 0 (Object_values (component_sizes (b d)));
              sizesAvailable = (0 < totalSizeA \<or> 0 < totalSizeB);
              bothSizesAvailable = (0 < totalSizeA \<and> 0 < totalSizeB)
          in Inr
            [\<lparr>tooltip = ''Compilation time benchmarks: measure how long does it take to compile various crates using the compared rustc.'',
              title = ''Compile-time'',
              selected = (activeTab st = CompileTime),
              tab_id = CompileTime,
              summary = TabSummaryTable_of (compileSummary st),
              isVisible = True\<rparr>,
             \<lparr>tooltip = ''Runtime benchmarks: measure how long does it take to execute (i.e. how fast are) programs compiled by the compared rustc.'',
              title = ''Runtime'',
              selected = (activeTab st = Runtime),
              tab_id = Runtime,
              summary = TabSummaryTable_of (runtimeSummary st),
              isVisible = True\<rparr>,
             \<lparr>tooltip = ''Bootstrap duration: measures how long does it take to compile rustc by itself.'',
              title = ''Bootstrap'',
              selected = (activeTab st = Bootstrap),
              tab_id = Bootstrap,
              summary =
                Element ''div'' None
                  ([Text (formatBootstrap e bootstrapA), Text '' '', Text ''->'', Text '' '',
                    Text (formatBootstrap e bootstrapB)]
                   @ (if bootstrapValid
                      then [Element ''div'' (Some (diffClass e (bootstrapB - bootstrapA)))
                              [Text (toFixed e 1
                                 (js_div (of_int (bootstrapB - bootstrapA)) 1000000000)),
                               Text ''s ('',
                               Text (toFixed e 3
                                 (js_mul (js_div (of_int (bootstrapB - bootstrapA))
                                            (of_int bootstrapA)) 100)),
                               Text ''%)'']]
                      else [])),
              isVisible = True\<rparr>,
             \<lparr>tooltip = ''Artifact size: sizes of individual components of the two artifacts.'',
              title = ''Artifact size'',
              selected = (activeTab st = ArtifactSize),
              tab_id = ArtifactSize,
              summary =
                Element ''div'' None
                  ([Text (formatArtifactSize e totalSizeA), Text '' '', Text ''->'', Text '' '',
                    Text (formatArtifactSize e totalSizeB)]
                   @ (if bothSizesAvailable
                      then [Element ''div'' (Some (diffClass e (totalSizeB - totalSizeA)))
                              [Text (if totalSizeB < totalSizeA then ''-'' else ''''),
                               Text (formatSize e \<bar>totalSizeB - totalSizeA\<bar>),
                               Text '' ('',
                               Text (formatPercentChange e totalSizeA totalSizeB),
                               Text '')'']]
                      else [])),
              isVisible = sizesAvailable\<rparr>])"

text \<open>The tab strip (\<^verbatim>\<open>tabs.vue\<close>) shows the descriptors that are visible.\<close>

definition activeTabs :: "tab_descriptor list \<Rightarrow> tab_descriptor list" where
  "activeTabs ts = filter isVisible ts"

subsection \<open>Notions of the specification\<close>

text \<open>
  The spec's wording of the visibility condition: a component-size mapping that is
  non-empty and whose sizes do not sum to zero.
\<close>

definition nonempty_nonzero_sum :: "(string \<times> int) list \<Rightarrow> bool" where
  "nonempty_nonzero_sum sizes \<longleftrightarrow> sizes \<noteq> [] \<and> sum_list (Object_values sizes) \<noteq> 0"

text \<open>
  The spec's "seconds with three-decimal precision": a count \<open>n\<close> of thousandths of a
  second written as its whole seconds, a point, and three digits.
\<close>

definition three_decimals :: "nat \<Rightarrow> string" where
  "three_decimals n =
     decimal (n div 1000) @ ''.''
       @ [''0123456789'' ! (n div 100 mod 10), ''0123456789'' ! (n div 10 mod 10),
          ''0123456789'' ! (n mod 10)]"

text \<open>The child components that a piece of markup mounts, in document order.\<close>

fun components :: "vnode \<Rightarrow> vnode list" where
  "components (Text s) = []"
| "components (Element t c ks) = concat (map components ks)"
| "components v = [v]"

subsection \<open>Sample inputs\<close>

definition sample_env :: env where
  "sample_env =
     \<lparr>Number_toString = (\<lambda>x. ''1e+21''),
      diffClass = (\<lambda>d. if d < 0 then ''negative'' else ''positive''),
      formatPercentChange = (\<lambda>x y. ''%''),
      formatSize = (\<lambda>n. decimal (nat n) @ '' B''),
      percentClass = (\<lambda>p. if p < 0 then ''negative'' else ''positive'')\<rparr>"

definition sample_response :: CompareResponse where
  "sample_response =
     \<lparr>a = \<lparr>bootstrap_total = 3000000000,
            component_sizes = [(''rustc'', 100), (''cargo'', 50)]\<rparr>,
      b = \<lparr>bootstrap_total = 4500000000,
            component_sizes = [(''rustc'', 120)]\<rparr>\<rparr>"

definition sample_response_no_bootstrap :: CompareResponse where
  "sample_response_no_bootstrap =
     \<lparr>a = \<lparr>bootstrap_total = 0, component_sizes = []\<rparr>,
      b = \<lparr>bootstrap_total = 0, component_sizes = []\<rparr>\<rparr>"

definition sample_response_zero_sizes :: CompareResponse where
  "sample_response_zero_sizes =
     \<lparr>a = \<lparr>bootstrap_total = 0, component_sizes = [(''rustc'', 0)]\<rparr>,
      b = \<lparr>bootstrap_total = 0, component_sizes = []\<rparr>\<rparr>"

text \<open>
  A window whose state is the dictionary of its query parameters, which
  \<^verbatim>\<open>changeUrl\<close> replaces.
\<close>

definition sample_navigation :: "(string Dict) navigation" where
  "sample_navigation = \<lparr>getUrlParams = (\<lambda>w. w), changeUrl = (\<lambda>params w. params)\<rparr>"

definition sample_page :: "Tab \<Rightarrow> CompareResponse option \<Rightarrow> (string Dict) page" where
  "sample_page t d =
     \<lparr>tab = t, data = d, compileSummary = None, runtimeSummary = None,
      window = [''start'' \<mapsto> ''abc'', ''tab'' \<mapsto> ''compile'']\<rparr>"

definition sample_summary :: "int \<Rightarrow> SummaryGroup" where
  "sample_summary n = \<lparr>all = \<lparr>count = n, range' = (- 1, 2), average = 1 / 2\<rparr>\<rparr>"

section \<open>Properties\<close>

subsection \<open>Reading the tab from the URL\<close>

lemma loadTabFromUrl_tokens:
  "loadTabFromUrl (m(''tab'' \<mapsto> ''compile'')) = IsTab CompileTime"
  "loadTabFromUrl (m(''tab'' \<mapsto> ''runtime'')) = IsTab Runtime"
  "loadTabFromUrl (m(''tab'' \<mapsto> ''bootstrap'')) = IsTab Bootstrap"
  "loadTabFromUrl (m(''tab'' \<mapsto> ''artifact-size'')) = IsTab ArtifactSize"
  by (simp_all add: loadTabFromUrl_def object_get_def)

lemma loadTabFromUrl_absent_or_empty:
  "m ''tab'' = None \<Longrightarrow> loadTabFromUrl m = Null"
  "loadTabFromUrl (m(''tab'' \<mapsto> '''')) = Null"
  by (simp_all add: loadTabFromUrl_def object_get_def Object_prototype_keys_def)

lemma loadTabFromUrl_unrecognized:
  assumes "m ''tab'' = Some s"
    and "s \<notin> {''compile'', ''runtime'', ''bootstrap'', ''artifact-size''}"
    and "s \<notin> set Object_prototype_keys"
  shows "loadTabFromUrl m = Null"
  using assms by (simp add: loadTabFromUrl_def object_get_def)

lemma loadTabFromUrl_inherited:
  assumes "m ''tab'' = Some s" and "s \<in> set Object_prototype_keys"
  shows "loadTabFromUrl m = NotATab s"
  using assms by (auto simp add: loadTabFromUrl_def object_get_def Object_prototype_keys_def)

text \<open>
  C1. The four tokens give their tabs and an absent, empty or otherwise unknown token
  gives \<^verbatim>\<open>null\<close> (the lemmas above), with the exception of the names that every object
  inherits from \<^verbatim>\<open>Object.prototype\<close>: for the URL \<^verbatim>\<open>?tab=constructor\<close> the lookup
  \<^verbatim>\<open>tabs[tab]\<close> finds the inherited \<^verbatim>\<open>constructor\<close>, which is not nullish, so
  \<^verbatim>\<open>loadTabFromUrl\<close> returns neither a tab nor \<^verbatim>\<open>null\<close>, and \<^verbatim>\<open>initialTab\<close> does not
  default to the compile-time tab.
\<close>

theorem loadTabFromUrl_constructor:
  "loadTabFromUrl [''tab'' \<mapsto> ''constructor''] = NotATab ''constructor''
   \<and> initialTab [''tab'' \<mapsto> ''constructor''] = NotATab ''constructor''"
  by (simp add: loadTabFromUrl_def initialTab_def object_get_def Object_prototype_keys_def)

subsection \<open>The active tab\<close>

text \<open>
  C10. A stored tab other than the artifact-size tab is the active tab, whatever the
  state of the data; the active tab differs from the stored one only when the stored one
  is the artifact-size tab, and it then is the compile-time tab.
\<close>

theorem activeTab_other_tabs:
  "(tab st \<noteq> ArtifactSize \<longrightarrow> activeTab st = tab st)
   \<and> (activeTab st \<noteq> tab st \<longrightarrow> tab st = ArtifactSize \<and> activeTab st = CompileTime)"
  by (simp add: activeTab_def)

theorem activeTab_other_tabs_witness:
  "tab (sample_page Runtime None) \<noteq> ArtifactSize
   \<and> activeTab (sample_page Runtime None) = Runtime
   \<and> activeTab (sample_page ArtifactSize None) \<noteq> tab (sample_page ArtifactSize None)
   \<and> activeTab (sample_page ArtifactSize None) = CompileTime"
  using activeTab_other_tabs [of "sample_page Runtime None"]
    activeTab_other_tabs [of "sample_page ArtifactSize None"]
  by (simp add: sample_page_def activeTab_def artifactSizeAvailable_def)

lemma activeTab_fallback:
  "tab st = ArtifactSize \<Longrightarrow> \<not> artifactSizeAvailable st \<Longrightarrow> activeTab st = CompileTime"
  by (simp add: activeTab_def)

lemma tabs_ids_visible:
  assumes "tabs e st = Inr ts" and "data st = Some d"
  shows "map (\<lambda>t. (tab_id t, isVisible t)) ts =
     [(CompileTime, True), (Runtime, True), (Bootstrap, True),
      (ArtifactSize,
       0 < foldl (\<lambda>x y. x + y) 0 (Object_values (component_sizes (a d)))
       \<or> 0 < foldl (\<lambda>x y. x + y) 0 (Object_values (component_sizes (b d))))]"
  using assms by (auto simp add: tabs_def Let_def split del: if_split)

lemma activeTab_visible_if_sizes_positive:
  assumes "tabs e st = Inr ts" and "data st = Some d"
    and "tab st = ArtifactSize \<and> artifactSizeAvailable st \<longrightarrow>
           0 < foldl (\<lambda>x y. x + y) 0 (Object_values (component_sizes (a d)))
         \<or> 0 < foldl (\<lambda>x y. x + y) 0 (Object_values (component_sizes (b d)))"
  shows "activeTab st \<in> tab_id ` set (activeTabs ts)"
proof -
  let ?v = "0 < foldl (\<lambda>x y. x + y) 0 (Object_values (component_sizes (a d)))
       \<or> 0 < foldl (\<lambda>x y. x + y) 0 (Object_values (component_sizes (b d)))"
  have "tab_id ` set (activeTabs ts)
      = fst ` set (filter snd (map (\<lambda>t. (tab_id t, isVisible t)) ts))"
    by (auto simp add: activeTabs_def filter_map comp_def image_iff)
  also have "\<dots> = {CompileTime, Runtime, Bootstrap} \<union> (if ?v then {ArtifactSize} else {})"
    unfolding tabs_ids_visible [OF assms(1,2)] by auto
  finally have vis: "tab_id ` set (activeTabs ts)
      = {CompileTime, Runtime, Bootstrap} \<union> (if ?v then {ArtifactSize} else {})" .
  show ?thesis
  proof (cases "activeTab st")
    case ArtifactSize
    then have "tab st = ArtifactSize \<and> artifactSizeAvailable st"
      by (simp add: activeTab_def split: if_splits)
    with assms(3) ArtifactSize show ?thesis unfolding vis by simp
  qed (simp_all add: vis)
qed

text \<open>
  C2. The active tab is not always among the visible tabs. The fallback to the
  compile-time tab looks at whether a component-size mapping has a key, the visibility
  of the artifact-size tab at whether the sizes sum to something positive. With the
  single component \<^verbatim>\<open>rustc\<close> of size 0 and the artifact-size tab stored, the active tab
  stays the artifact-size tab while the tab strip shows only the other three tabs.
\<close>

theorem activeTab_not_visible:
  "activeTab (sample_page ArtifactSize (Some sample_response_zero_sizes)) = ArtifactSize
   \<and> map_sum id (map tab_id \<circ> activeTabs)
        (tabs sample_env (sample_page ArtifactSize (Some sample_response_zero_sizes)))
       = Inr [CompileTime, Runtime, Bootstrap]"
  by (simp add: activeTab_def artifactSizeAvailable_def sample_response_zero_sizes_def
      sample_page_def Object_keys_def Object_values_def tabs_def activeTabs_def Let_def)

subsection \<open>Storing the tab in the URL\<close>

text \<open>
  C6. The dictionary that \<^verbatim>\<open>storeTabToUrl\<close> passes to \<^verbatim>\<open>changeUrl\<close> maps \<^verbatim>\<open>tab\<close> to the
  token of the new tab and agrees with the dictionary it was given on every other key.
  \<^verbatim>\<open>changeTab\<close> stores the new tab and passes to \<^verbatim>\<open>changeUrl\<close> the parameters of the
  current URL with only \<^verbatim>\<open>tab\<close> set anew.
\<close>

theorem storeTabToUrl_frame:
  "fst (storeTabToUrl nav urlParams t w) ''tab'' = Some (Tab_as_string t)
   \<and> (\<forall>k. k \<noteq> ''tab'' \<longrightarrow> fst (storeTabToUrl nav urlParams t w) k = urlParams k)
   \<and> snd (storeTabToUrl nav urlParams t w)
        = changeUrl nav (fst (storeTabToUrl nav urlParams t w)) w
   \<and> tab (changeTab nav t st) = t
   \<and> window (changeTab nav t st)
        = changeUrl nav (fst (storeTabToUrl nav (getUrlParams nav (window st)) t (window st)))
            (window st)
   \<and> fst (storeTabToUrl nav (getUrlParams nav (window st)) t (window st))
        = (getUrlParams nav (window st))(''tab'' \<mapsto> Tab_as_string t)"
  by (simp add: storeTabToUrl_def changeTab_def Let_def)

theorem storeTabToUrl_frame_witness:
  "''start'' \<noteq> ''tab''
   \<and> fst (storeTabToUrl sample_navigation [''start'' \<mapsto> ''abc'', ''tab'' \<mapsto> ''compile'']
            Runtime Map.empty) ''start'' = Some ''abc''
   \<and> fst (storeTabToUrl sample_navigation [''start'' \<mapsto> ''abc'', ''tab'' \<mapsto> ''compile'']
            Runtime Map.empty) ''tab'' = Some ''runtime''
   \<and> window (changeTab sample_navigation Runtime (sample_page CompileTime None)) ''start''
        = Some ''abc''
   \<and> window (changeTab sample_navigation Runtime (sample_page CompileTime None)) ''tab''
        = Some ''runtime''"
  using storeTabToUrl_frame [of sample_navigation
      "[''start'' \<mapsto> ''abc'', ''tab'' \<mapsto> ''compile'']" Runtime Map.empty
      "sample_page CompileTime None"]
  by (auto simp add: sample_page_def sample_navigation_def)

lemma map_add_same: "m ++ m = m"
  by (simp add: fun_eq_iff map_add_def split: option.splits)

lemma map_add_upd_absorb: "((q ++ p)(k \<mapsto> v) ++ p)(k \<mapsto> v) = (q ++ p)(k \<mapsto> v)"
  by (auto simp add: fun_eq_iff map_add_def split: option.splits)

text \<open>
  C7. Storing the same tab a second time, on the dictionary and the query string that
  the first call left, changes neither: the dictionary and the final query string are
  those of storing once, and the query string maps \<^verbatim>\<open>tab\<close> to the token of the tab.
  The same holds for two tab switches to the same tab in a row. For every navigation
  whatever, the second call hands \<^verbatim>\<open>changeUrl\<close> the dictionary that the first call
  handed it.
\<close>

theorem storeTabToUrl_twice:
  "storeTabToUrl (utils_navigation keep)
      (fst (storeTabToUrl (utils_navigation keep) urlParams t query)) t
      (snd (storeTabToUrl (utils_navigation keep) urlParams t query))
     = storeTabToUrl (utils_navigation keep) urlParams t query
   \<and> snd (storeTabToUrl (utils_navigation keep) urlParams t query) ''tab''
       = Some (Tab_as_string t)
   \<and> changeTab (utils_navigation keep) t (changeTab (utils_navigation keep) t st)
       = changeTab (utils_navigation keep) t st
   \<and> fst (storeTabToUrl nav (fst (storeTabToUrl nav urlParams t w)) t
            (snd (storeTabToUrl nav urlParams t w)))
       = fst (storeTabToUrl nav urlParams t w)"
  by (simp add: storeTabToUrl_def changeTab_def utils_navigation_def Let_def
      map_add_same map_add_upd_absorb)

theorem storeTabToUrl_twice_witness:
  "storeTabToUrl (utils_navigation True)
      (fst (storeTabToUrl (utils_navigation True) [''tab'' \<mapsto> ''compile''] Bootstrap
              [''start'' \<mapsto> ''abc'', ''tab'' \<mapsto> ''compile'']))
      Bootstrap
      (snd (storeTabToUrl (utils_navigation True) [''tab'' \<mapsto> ''compile''] Bootstrap
              [''start'' \<mapsto> ''abc'', ''tab'' \<mapsto> ''compile'']))
     = ([''tab'' \<mapsto> ''bootstrap''], [''start'' \<mapsto> ''abc'', ''tab'' \<mapsto> ''bootstrap''])
   \<and> storeTabToUrl (utils_navigation True) [''tab'' \<mapsto> ''compile''] Bootstrap
         [''start'' \<mapsto> ''abc'', ''tab'' \<mapsto> ''compile'']
     = ([''tab'' \<mapsto> ''bootstrap''], [''start'' \<mapsto> ''abc'', ''tab'' \<mapsto> ''bootstrap''])
   \<and> window (changeTab (utils_navigation False) Bootstrap
         (changeTab (utils_navigation False) Bootstrap (sample_page CompileTime None)))
     = [''start'' \<mapsto> ''abc'', ''tab'' \<mapsto> ''bootstrap'']"
  using storeTabToUrl_twice [of True "[''tab'' \<mapsto> ''compile'']" Bootstrap
      "[''start'' \<mapsto> ''abc'', ''tab'' \<mapsto> ''compile'']"]
    storeTabToUrl_twice [of False _ Bootstrap _ "sample_page CompileTime None"]
  by (simp add: storeTabToUrl_def changeTab_def utils_navigation_def sample_page_def Let_def
      map_add_same map_add_upd_absorb)

subsection \<open>Building the tab descriptors\<close>

lemma foldl_plus_sum_list: "foldl (\<lambda>x y. x + y) s xs = s + sum_list (xs :: int list)"
  by (induction xs arbitrary: s) simp_all

lemma sum_list_nonneg_pos_iff:
  "\<forall>v \<in> set xs. 0 \<le> v \<Longrightarrow> 0 < sum_list (xs :: int list) \<longleftrightarrow> xs \<noteq> [] \<and> sum_list xs \<noteq> 0"
proof -
  assume "\<forall>v \<in> set xs. 0 \<le> v"
  then have "0 \<le> sum_list xs" by (simp add: sum_list_nonneg)
  then show ?thesis by auto
qed

lemma tabs_loaded: "data st = Some d \<Longrightarrow> \<exists>ts. tabs e st = Inr ts"
  by (simp add: tabs_def Let_def)

text \<open>
  C4. Building the descriptors fails with a \<^verbatim>\<open>TypeError\<close> when the data is still
  \<^verbatim>\<open>null\<close>, and yields the descriptors when the data has loaded: it returns descriptors
  exactly under the precondition that the data is present.
\<close>

theorem tabs_total_iff_data_loaded:
  "(data st = None \<longrightarrow> tabs e st = Inl TypeError)
   \<and> (data st \<noteq> None \<longrightarrow> (\<exists>ts. tabs e st = Inr ts))
   \<and> ((\<exists>ts. tabs e st = Inr ts) \<longleftrightarrow> data st \<noteq> None)"
  by (cases "data st") (simp_all add: tabs_def Let_def)

theorem tabs_total_iff_data_loaded_witness:
  "data (sample_page CompileTime None) = None
   \<and> tabs sample_env (sample_page CompileTime None) = Inl TypeError
   \<and> data (sample_page CompileTime (Some sample_response)) \<noteq> None
   \<and> (\<exists>ts. tabs sample_env (sample_page CompileTime (Some sample_response)) = Inr ts)"
  using tabs_total_iff_data_loaded [of "sample_page CompileTime None" sample_env]
    tabs_total_iff_data_loaded [of "sample_page CompileTime (Some sample_response)" sample_env]
  by (simp add: sample_page_def)

text \<open>
  C3. Among the descriptors there is one for the artifact-size tab, and it is visible
  if and only if the component sizes of artifact \<open>a\<close> sum to a positive number or those
  of artifact \<open>b\<close> do. For byte sizes, which are not negative, this is the same as one
  of the two mappings being non-empty with a non-zero sum.
\<close>

theorem artifact_size_tab_visible_iff:
  assumes "data st = Some d" and "tabs e st = Inr ts"
  shows "(\<exists>t \<in> set ts. tab_id t = ArtifactSize)
     \<and> (\<forall>t \<in> set ts. tab_id t = ArtifactSize \<longrightarrow>
          (isVisible t \<longleftrightarrow> 0 < sum_list (Object_values (component_sizes (a d)))
                          \<or> 0 < sum_list (Object_values (component_sizes (b d)))))
     \<and> ((\<forall>v \<in> set (Object_values (component_sizes (a d))
                    @ Object_values (component_sizes (b d))). 0 \<le> v) \<longrightarrow>
         (\<forall>t \<in> set ts. tab_id t = ArtifactSize \<longrightarrow>
            (isVisible t \<longleftrightarrow> nonempty_nonzero_sum (component_sizes (a d))
                            \<or> nonempty_nonzero_sum (component_sizes (b d)))))"
proof -
  let ?A = "Object_values (component_sizes (a d))"
  let ?B = "Object_values (component_sizes (b d))"
  have vis: "\<forall>t \<in> set ts. tab_id t = ArtifactSize \<longrightarrow>
      (isVisible t \<longleftrightarrow> 0 < sum_list ?A \<or> 0 < sum_list ?B)"
    and ex: "\<exists>t \<in> set ts. tab_id t = ArtifactSize"
    using assms by (auto simp add: tabs_def Let_def foldl_plus_sum_list)
  have "\<forall>t \<in> set ts. tab_id t = ArtifactSize \<longrightarrow>
            (isVisible t \<longleftrightarrow> nonempty_nonzero_sum (component_sizes (a d))
                            \<or> nonempty_nonzero_sum (component_sizes (b d)))"
    if nn: "\<forall>v \<in> set (?A @ ?B). 0 \<le> v"
  proof -
    have "0 < sum_list ?A \<longleftrightarrow> nonempty_nonzero_sum (component_sizes (a d))"
      using nn sum_list_nonneg_pos_iff [of ?A]
      by (auto simp add: nonempty_nonzero_sum_def Object_values_def)
    moreover have "0 < sum_list ?B \<longleftrightarrow> nonempty_nonzero_sum (component_sizes (b d))"
      using nn sum_list_nonneg_pos_iff [of ?B]
      by (auto simp add: nonempty_nonzero_sum_def Object_values_def)
    ultimately show ?thesis using vis by simp
  qed
  with vis ex show ?thesis by blast
qed

theorem artifact_size_tab_visible_iff_witness:
  "\<exists>ts. data (sample_page CompileTime (Some sample_response)) = Some sample_response
     \<and> tabs sample_env (sample_page CompileTime (Some sample_response)) = Inr ts
     \<and> (\<forall>v \<in> set (Object_values (component_sizes (a sample_response))
                    @ Object_values (component_sizes (b sample_response))). 0 \<le> v)
     \<and> (\<exists>t \<in> set ts. tab_id t = ArtifactSize \<and> isVisible t)
     \<and> nonempty_nonzero_sum (component_sizes (a sample_response))
     \<and> sum_list (Object_values (component_sizes (a sample_response))) = 150"
proof -
  let ?st = "sample_page CompileTime (Some sample_response)"
  have d: "data ?st = Some sample_response" by (simp add: sample_page_def)
  from tabs_loaded [OF d] obtain ts where ts: "tabs sample_env ?st = Inr ts" ..
  have nn: "\<forall>v \<in> set (Object_values (component_sizes (a sample_response))
                    @ Object_values (component_sizes (b sample_response))). 0 \<le> v"
    and s: "sum_list (Object_values (component_sizes (a sample_response))) = 150"
    by (simp_all add: sample_response_def Object_values_def)
  have ne: "nonempty_nonzero_sum (component_sizes (a sample_response))"
    by (simp add: nonempty_nonzero_sum_def sample_response_def Object_values_def)
  from artifact_size_tab_visible_iff [OF d ts] s
  have "\<exists>t \<in> set ts. tab_id t = ArtifactSize \<and> isVisible t" by auto
  with d ts nn ne s show ?thesis by blast
qed

subsection \<open>Rounding and decimal digits\<close>

lemma round_half_even_close: "\<bar>of_int (round_half_even x) - x\<bar> \<le> 1 / 2"
proof -
  have "of_int \<lfloor>x\<rfloor> \<le> x" "x < of_int \<lfloor>x\<rfloor> + 1" by linarith+
  then show ?thesis
    by (auto simp add: round_half_even_def Let_def)
qed

lemma bitlen_powi_bounds:
  assumes "0 < n"
  shows "(2::rat) powi (bitlen n - 1) \<le> of_int n" and "of_int n < (2::rat) powi (bitlen n)"
proof -
  from assms have l: "1 \<le> bitlen n" by (auto simp add: bitlen_alt_def)
  from bitlen_bounds [OF assms]
  have "2 ^ nat (bitlen n - 1) \<le> n" and "n < 2 ^ nat (bitlen n)" by simp_all
  then have "(of_int (2 ^ nat (bitlen n - 1)) :: rat) \<le> of_int n"
    and "(of_int n :: rat) < of_int (2 ^ nat (bitlen n))"
    by (simp_all only: of_int_le_iff of_int_less_iff)
  with l show "(2::rat) powi (bitlen n - 1) \<le> of_int n" and "of_int n < (2::rat) powi (bitlen n)"
    by (simp_all add: power_int_def)
qed

lemma significand_lower:
  assumes "0 < x" and "quotient_of x = (p, q)"
  shows "2 ^ 52 \<le> x * 2 powi (53 + bitlen q - bitlen p)"
proof -
  from assms have q: "0 < q" and x: "x = of_int p / of_int q"
    by (simp_all add: quotient_of_denom_pos quotient_of_div)
  with assms have p: "0 < p" by (simp add: zero_less_divide_iff)
  have 1: "(2::rat) powi (bitlen p - 1) \<le> of_int p" using bitlen_powi_bounds(1) [OF p] .
  have 2: "of_int q < (2::rat) powi (bitlen q)" using bitlen_powi_bounds(2) [OF q] .
  have e: "(2::rat) powi (53 + bitlen q - bitlen p)
      = 2 ^ 52 * 2 powi (bitlen q) / 2 powi (bitlen p - 1)"
    by (simp add: power_int_add power_int_diff field_simps)
  define A where "A = of_int p / (2::rat) powi (bitlen p - 1)"
  define B where "B = (2::rat) powi (bitlen q) / of_int q"
  have A: "1 \<le> A" using 1 by (simp add: A_def field_simps)
  have B: "1 \<le> B" using 2 q by (simp add: B_def field_simps)
  have "0 \<le> A" using A by linarith
  then have "1 * 1 \<le> A * B" using A B by (intro mult_mono) simp_all
  then have "2 ^ 52 * 1 \<le> 2 ^ 52 * (A * B)"
    by (intro mult_left_mono) simp_all
  also have "\<dots> = x * 2 powi (53 + bitlen q - bitlen p)"
    unfolding e x A_def B_def by (simp add: field_simps)
  finally show ?thesis by simp
qed

lemma round_double_error:
  assumes "0 < x"
  shows "\<bar>round_double x - x\<bar> \<le> x / 2 ^ 53"
proof -
  obtain p q where pq: "quotient_of x = (p, q)" by (cases "quotient_of x")
  define k0 where "k0 = 53 + bitlen q - bitlen p"
  define k where "k = (if x * 2 powi k0 < 2 ^ 53 then k0 else k0 - 1)"
  define m where "m = round_half_even (x * 2 powi k)"
  have rd: "round_double x = of_int m / 2 powi k"
    using assms pq by (simp add: round_double_def Let_def k0_def k_def m_def)
  have low0: "2 ^ 52 \<le> x * 2 powi k0"
    using significand_lower [OF assms pq] by (simp add: k0_def)
  have low: "2 ^ 52 \<le> x * 2 powi k"
  proof (cases "x * 2 powi k0 < 2 ^ 53")
    case True
    with low0 show ?thesis by (simp add: k_def)
  next
    case False
    then have "2 ^ 53 \<le> x * 2 powi k0" by simp
    moreover have "(2::rat) powi k0 = 2 * 2 powi (k0 - 1)"
      by (simp add: power_int_diff)
    ultimately show ?thesis using False by (simp add: k_def)
  qed
  have pos: "(0::rat) < 2 powi k" by simp
  have "\<bar>of_int m - x * 2 powi k\<bar> \<le> 1 / 2"
    unfolding m_def by (rule round_half_even_close)
  also have "(1::rat) / 2 \<le> x * 2 powi k / 2 ^ 53" using low by simp
  finally have le: "\<bar>of_int m - x * 2 powi k\<bar> \<le> x * 2 powi k / 2 ^ 53" .
  have "\<bar>of_int m - x * 2 powi k\<bar> / 2 powi k \<le> (x * 2 powi k / 2 ^ 53) / 2 powi k"
    by (rule divide_right_mono [OF le]) simp
  moreover have "\<bar>of_int m - x * 2 powi k\<bar> / 2 powi k = \<bar>of_int m / 2 powi k - x\<bar>"
  proof -
    have "of_int m / 2 powi k - x = (of_int m - x * 2 powi k) / 2 powi k"
      using pos by (simp add: field_simps)
    then show ?thesis using pos by (simp add: abs_divide del: power_int_eq_0_iff)
  qed
  moreover have "(x * 2 powi k / 2 ^ 53) / 2 powi k = x / 2 ^ 53"
    using pos by simp
  ultimately show ?thesis by (simp add: rd)
qed

lemma decimal_nonempty: "decimal n \<noteq> []"
  by (subst decimal.simps) simp

lemma decimal_below_1000:
  "n < 10 \<Longrightarrow> decimal n = [''0123456789'' ! n]"
  "10 \<le> n \<Longrightarrow> n < 100 \<Longrightarrow> decimal n = [''0123456789'' ! (n div 10), ''0123456789'' ! (n mod 10)]"
  "100 \<le> n \<Longrightarrow> n < 1000 \<Longrightarrow>
     decimal n = [''0123456789'' ! (n div 100), ''0123456789'' ! (n div 10 mod 10),
                  ''0123456789'' ! (n mod 10)]"
proof -
  show 1: "decimal n = [''0123456789'' ! n]" if "n < 10" for n
    using that by (subst decimal.simps) simp
  show 2: "decimal n = [''0123456789'' ! (n div 10), ''0123456789'' ! (n mod 10)]"
    if "10 \<le> n" "n < 100" for n
  proof -
    from that have "n div 10 < 10" by simp
    with that show ?thesis by (subst decimal.simps) (simp add: 1)
  qed
  show "decimal n = [''0123456789'' ! (n div 100), ''0123456789'' ! (n div 10 mod 10),
                  ''0123456789'' ! (n mod 10)]" if "100 \<le> n" "n < 1000"
  proof -
    from that have "10 \<le> n div 10" "n div 10 < 100" by simp_all
    from 2 [OF this] that show ?thesis
      by (subst decimal.simps) (simp add: div_mult2_eq [symmetric])
  qed
qed

lemma decimal_from_1000:
  assumes "1000 \<le> n"
  shows "decimal n = decimal (n div 1000)
           @ [''0123456789'' ! (n div 100 mod 10), ''0123456789'' ! (n div 10 mod 10),
              ''0123456789'' ! (n mod 10)]"
proof -
  from assms have 1: "\<not> n < 10" and 2: "\<not> n div 10 < 10" and 3: "\<not> n div 100 < 10"
    by simp_all
  have "decimal n = decimal (n div 10) @ [''0123456789'' ! (n mod 10)]"
    using 1 by (subst decimal.simps) simp
  also have "decimal (n div 10) = decimal (n div 100) @ [''0123456789'' ! (n div 10 mod 10)]"
    using 2 by (subst decimal.simps) (simp add: div_mult2_eq [symmetric])
  also have "decimal (n div 100) = decimal (n div 1000) @ [''0123456789'' ! (n div 100 mod 10)]"
    using 3 by (subst decimal.simps) (simp add: div_mult2_eq [symmetric])
  finally show ?thesis by simp
qed

lemma replicate_CHR0:
  "replicate 3 c = [c, c, c]" "replicate 2 c = [c, c]"
  by (simp_all add: numeral_3_eq_3 numeral_2_eq_2)

lemma fixed_digits_3: "fixed_digits 3 n = three_decimals n"
proof -
  consider "n < 10" | "10 \<le> n" "n < 100" | "100 \<le> n" "n < 1000" | "1000 \<le> n" by linarith
  then show ?thesis
  proof cases
    case 1
    then have m: "(if n = 0 then ''0'' else decimal n) = [''0123456789'' ! n]"
      by (simp add: decimal_below_1000)
    from 1 have z: "n div 1000 = 0" "n div 100 = 0" "n div 10 = 0" "n mod 10 = n" by simp_all
    show ?thesis
      unfolding fixed_digits_def m three_decimals_def z
      by (simp add: replicate_CHR0 decimal_below_1000)
  next
    case 2
    then have m: "(if n = 0 then ''0'' else decimal n)
        = [''0123456789'' ! (n div 10), ''0123456789'' ! (n mod 10)]"
      by (simp add: decimal_below_1000)
    from 2 have z: "n div 1000 = 0" "n div 100 = 0" "n div 10 mod 10 = n div 10" by simp_all
    show ?thesis
      unfolding fixed_digits_def m three_decimals_def z
      by (simp add: replicate_CHR0 decimal_below_1000)
  next
    case 3
    then have m: "(if n = 0 then ''0'' else decimal n)
        = [''0123456789'' ! (n div 100), ''0123456789'' ! (n div 10 mod 10),
           ''0123456789'' ! (n mod 10)]"
      by (simp add: decimal_below_1000)
    from 3 have z: "n div 1000 = 0" "n div 100 mod 10 = n div 100" by simp_all
    show ?thesis
      unfolding fixed_digits_def m three_decimals_def z
      by (simp add: decimal_below_1000)
  next
    case 4
    define hi where "hi = decimal (n div 1000)"
    define lo where "lo = [''0123456789'' ! (n div 100 mod 10), ''0123456789'' ! (n div 10 mod 10),
           ''0123456789'' ! (n mod 10)]"
    from 4 have m: "(if n = 0 then ''0'' else decimal n) = hi @ lo"
      by (simp add: decimal_from_1000 hi_def lo_def)
    have hi: "hi \<noteq> []" by (simp add: hi_def decimal_nonempty)
    have lo: "length lo = 3" by (simp add: lo_def)
    have "fixed_digits 3 n = hi @ ''.'' @ lo"
      unfolding fixed_digits_def m using hi lo by (simp add: Let_def)
    then show ?thesis by (simp add: three_decimals_def hi_def lo_def)
  qed
qed

lemma toFixed_3:
  assumes "0 \<le> x" and "x < 10 ^ 21"
  shows "toFixed e 3 x = three_decimals (nat \<lfloor>x * 1000 + 1 / 2\<rfloor>)"
  using assms by (simp add: toFixed_def Let_def fixed_digits_3)

lemma floor_rat_numeral: "\<lfloor>numeral p / numeral q :: rat\<rfloor> = numeral p div numeral q"
  by (metis floor_divide_of_int_eq of_int_numeral)

lemma sample_quotients:
  "js_div 3000000000 1000000000 = 3"
  "js_div 4500000000 1000000000 = 9 / 2"
  "js_div 1234567890 1000000000 = 5559999489367579 / 4503599627370496"
  "js_div 1500000000 1000000000 = 3 / 2"
  "js_div 1500000000 3000000000 = 1 / 2"
  "js_mul (1 / 2) 100 = 50"
  by code_simp+

lemma sample_texts:
  "formatBootstrap e 3000000000 = ''3.000''"
  "formatBootstrap e 4500000000 = ''4.500''"
  "formatBootstrap e 1234567890 = ''1.235''"
  "toFixed e 3 50 = ''50.000''"
  by (simp_all add: formatBootstrap_def sample_quotients toFixed_3
      three_decimals_def decimal_below_1000 floor_rat_numeral)

lemma sample_text_seconds: "toFixed e 1 (3 / 2) = ''1.5''"
  by (simp add: toFixed_def fixed_digits_def decimal_below_1000 floor_rat_numeral)

subsection \<open>Formatting a bootstrap duration\<close>

lemma formatBootstrap_nearest_millisecond:
  assumes "0 < v" and "v < 2 ^ 64"
  shows "\<exists>n. formatBootstrap e v = three_decimals n
           \<and> \<bar>int n * 1000000 - v\<bar> \<le> 500000 + v div 2 ^ 53"
proof -
  define x :: rat where "x = of_int v / 1000000000"
  define d where "d = round_double x"
  define r where "r = d * 1000 + 1 / 2"
  define n where "n = nat \<lfloor>r\<rfloor>"
  define eps where "eps = x / 2 ^ 53"
  from assms have x: "0 < x" by (simp add: x_def)
  have v: "(of_int v :: rat) < 2 ^ 64"
    using assms(2) of_int_less_iff [of v "2 ^ 64", where ?'a = rat] by simp
  have err: "\<bar>d - x\<bar> \<le> eps"
    unfolding d_def eps_def by (rule round_double_error [OF x])
  have eps: "eps \<le> x" using x by (simp add: eps_def)
  with err have d0: "0 \<le> d" by linarith
  have xb: "x < 18446744073709551616 / 1000000000" using v by (simp add: x_def)
  have "d < 2 * (18446744073709551616 / 1000000000)"
    using err eps xb by linarith
  then have d21: "d < 10 ^ 21" by simp
  have fb: "formatBootstrap e v = three_decimals n"
    using assms(1) d0 d21
    by (simp add: formatBootstrap_def js_div_def toFixed_3 x_def d_def n_def r_def)
  from d0 have "0 \<le> r" by (simp add: r_def)
  then have "0 \<le> \<lfloor>r\<rfloor>" by simp
  then have n: "of_int (int n) = (of_int \<lfloor>r\<rfloor> :: rat)" by (simp add: n_def)
  have vx: "(of_int v :: rat) = 1000000000 * x" by (simp add: x_def)
  have r: "r = d * 1000 + 1 / 2" by (simp add: r_def)
  have fl: "of_int \<lfloor>r\<rfloor> \<le> r" "r < of_int \<lfloor>r\<rfloor> + 1" by linarith+
  have "\<bar>(of_int (int n) :: rat) * 1000000 - of_int v\<bar> \<le> 500000 + 1000000000 * eps"
    unfolding n using fl r err vx by linarith
  also have "1000000000 * eps = of_int v / of_int (2 ^ 53)"
    by (simp add: eps_def x_def)
  finally have "(of_int (\<bar>int n * 1000000 - v\<bar> - 500000) :: rat) \<le> of_int v / of_int (2 ^ 53)"
    by simp
  then have "\<bar>int n * 1000000 - v\<bar> - 500000 \<le> \<lfloor>(of_int v :: rat) / of_int (2 ^ 53)\<rfloor>"
    by (simp only: le_floor_iff)
  then have "\<bar>int n * 1000000 - v\<bar> - 500000 \<le> v div 2 ^ 53"
    by (simp only: floor_divide_of_int_eq)
  with fb show ?thesis by auto
qed

text \<open>
  C5. \<^verbatim>\<open>formatBootstrap\<close> returns the placeholder \<^verbatim>\<open>???\<close> for every input that is not
  positive, in particular for 0 and for -5, and \<^verbatim>\<open>3.000\<close> for 3000000000. For a positive
  count \<open>v\<close> of nanoseconds below \<open>2 ^ 64\<close> it returns seconds with three decimals,
  \<open>three_decimals n\<close>, where the count \<open>n\<close> of milliseconds is within half a
  millisecond of \<open>v\<close>, up to the rounding of the division, which is at most one
  nanosecond for every \<open>2 ^ 53\<close> nanoseconds of \<open>v\<close> and nothing below that.
\<close>

theorem formatBootstrap_placeholder_or_seconds:
  "(v \<le> 0 \<longrightarrow> formatBootstrap e v = ''???'')
   \<and> formatBootstrap e 0 = ''???''
   \<and> formatBootstrap e (- 5) = ''???''
   \<and> formatBootstrap e 3000000000 = ''3.000''
   \<and> (0 < v \<and> v < 2 ^ 64 \<longrightarrow>
        (\<exists>n. formatBootstrap e v = three_decimals n
           \<and> \<bar>int n * 1000000 - v\<bar> \<le> 500000 + v div 2 ^ 53))"
  using formatBootstrap_nearest_millisecond [of v e] sample_texts(1) [of e]
  by (simp add: formatBootstrap_def)

theorem formatBootstrap_placeholder_or_seconds_witness:
  "(- 5 :: int) \<le> 0 \<and> formatBootstrap sample_env (- 5) = ''???''
   \<and> (0 :: int) < 1234567890 \<and> (1234567890 :: int) < 2 ^ 64
   \<and> (\<exists>n. formatBootstrap sample_env 1234567890 = three_decimals n
          \<and> \<bar>int n * 1000000 - 1234567890\<bar> \<le> 500000)
   \<and> formatBootstrap sample_env 1234567890 = ''1.235''"
  using formatBootstrap_placeholder_or_seconds [of "- 5" sample_env]
    formatBootstrap_placeholder_or_seconds [of 1234567890 sample_env]
  by (simp add: sample_texts)

subsection \<open>The bootstrap summary\<close>

lemma tabs_has_tab: "tabs e st = Inr ts \<Longrightarrow> \<exists>t \<in> set ts. tab_id t = k"
  by (cases k) (auto simp add: tabs_def Let_def split: option.splits)

text \<open>
  C8. In the summary of the bootstrap tab, when both totals are positive and differ the
  two formatted totals are followed by the delta element, which carries the class of
  the difference, the difference in seconds with one decimal and the change in percent
  with three; when both totals are zero the summary is the text \<^verbatim>\<open>??? -> ???\<close> and
  nothing else. The delta element is there exactly when both totals are positive.
\<close>

theorem bootstrap_summary_delta:
  assumes "data st = Some d" and "tabs e st = Inr ts"
    and "t \<in> set ts" and "tab_id t = Bootstrap"
  shows "(0 < bootstrap_total (a d) \<and> 0 < bootstrap_total (b d)
            \<and> bootstrap_total (a d) \<noteq> bootstrap_total (b d) \<longrightarrow>
          children (summary t) =
            [Text (formatBootstrap e (bootstrap_total (a d))), Text '' '', Text ''->'', Text '' '',
             Text (formatBootstrap e (bootstrap_total (b d))),
             Element ''div'' (Some (diffClass e (bootstrap_total (b d) - bootstrap_total (a d))))
               [Text (toFixed e 1
                  (js_div (of_int (bootstrap_total (b d) - bootstrap_total (a d))) 1000000000)),
                Text ''s ('',
                Text (toFixed e 3
                  (js_mul (js_div (of_int (bootstrap_total (b d) - bootstrap_total (a d)))
                             (of_int (bootstrap_total (a d)))) 100)),
                Text ''%)'']])
     \<and> (bootstrap_total (a d) = 0 \<and> bootstrap_total (b d) = 0 \<longrightarrow>
          summary t = Element ''div'' None
            [Text ''???'', Text '' '', Text ''->'', Text '' '', Text ''???''])
     \<and> (length (elements (summary t)) = 2 \<longleftrightarrow>
          0 < bootstrap_total (a d) \<and> 0 < bootstrap_total (b d))"
proof -
  let ?A = "bootstrap_total (a d)" and ?B = "bootstrap_total (b d)"
  have t: "summary t = Element ''div'' None
      ([Text (formatBootstrap e ?A), Text '' '', Text ''->'', Text '' '',
        Text (formatBootstrap e ?B)]
       @ (if 0 < ?A \<and> 0 < ?B
          then [Element ''div'' (Some (diffClass e (?B - ?A)))
                  [Text (toFixed e 1 (js_div (of_int (?B - ?A)) 1000000000)),
                   Text ''s ('',
                   Text (toFixed e 3 (js_mul (js_div (of_int (?B - ?A)) (of_int ?A)) 100)),
                   Text ''%)'']]
          else []))"
    using assms by (auto simp add: tabs_def Let_def)
  show ?thesis
  proof (cases "0 < ?A \<and> 0 < ?B")
    case True
    with t show ?thesis by simp
  next
    case False
    with t show ?thesis by (auto simp add: formatBootstrap_def)
  qed
qed

theorem bootstrap_summary_delta_witness:
  "(\<exists>ts t. data (sample_page Bootstrap (Some sample_response)) = Some sample_response
      \<and> tabs sample_env (sample_page Bootstrap (Some sample_response)) = Inr ts
      \<and> t \<in> set ts \<and> tab_id t = Bootstrap
      \<and> 0 < bootstrap_total (a sample_response) \<and> 0 < bootstrap_total (b sample_response)
      \<and> bootstrap_total (a sample_response) \<noteq> bootstrap_total (b sample_response)
      \<and> children (summary t) =
            [Text ''3.000'', Text '' '', Text ''->'', Text '' '', Text ''4.500'',
             Element ''div'' (Some ''positive'')
               [Text ''1.5'', Text ''s ('', Text ''50.000'', Text ''%)'']])
   \<and> (\<exists>ts t. data (sample_page Bootstrap (Some sample_response_no_bootstrap))
          = Some sample_response_no_bootstrap
      \<and> tabs sample_env (sample_page Bootstrap (Some sample_response_no_bootstrap)) = Inr ts
      \<and> t \<in> set ts \<and> tab_id t = Bootstrap
      \<and> bootstrap_total (a sample_response_no_bootstrap) = 0
      \<and> bootstrap_total (b sample_response_no_bootstrap) = 0
      \<and> summary t = Element ''div'' None
            [Text ''???'', Text '' '', Text ''->'', Text '' '', Text ''???''])"
proof (intro conjI)
  let ?st = "sample_page Bootstrap (Some sample_response)"
  have d: "data ?st = Some sample_response" by (simp add: sample_page_def)
  from tabs_loaded [OF d] obtain ts where ts: "tabs sample_env ?st = Inr ts" ..
  from tabs_has_tab [OF ts, of Bootstrap] obtain t where t: "t \<in> set ts" "tab_id t = Bootstrap" ..
  have v: "bootstrap_total (a sample_response) = 3000000000"
    "bootstrap_total (b sample_response) = 4500000000"
    by (simp_all add: sample_response_def)
  have "children (summary t) =
            [Text ''3.000'', Text '' '', Text ''->'', Text '' '', Text ''4.500'',
             Element ''div'' (Some ''positive'')
               [Text ''1.5'', Text ''s ('', Text ''50.000'', Text ''%)'']]"
    using bootstrap_summary_delta [OF d ts t]
    by (simp add: v sample_quotients sample_texts sample_text_seconds [unfolded One_nat_def]
        sample_env_def)
  with d ts t v show "\<exists>ts t. data ?st = Some sample_response
      \<and> tabs sample_env ?st = Inr ts
      \<and> t \<in> set ts \<and> tab_id t = Bootstrap
      \<and> 0 < bootstrap_total (a sample_response) \<and> 0 < bootstrap_total (b sample_response)
      \<and> bootstrap_total (a sample_response) \<noteq> bootstrap_total (b sample_response)
      \<and> children (summary t) =
            [Text ''3.000'', Text '' '', Text ''->'', Text '' '', Text ''4.500'',
             Element ''div'' (Some ''positive'')
               [Text ''1.5'', Text ''s ('', Text ''50.000'', Text ''%)'']]"
    by auto
next
  let ?st = "sample_page Bootstrap (Some sample_response_no_bootstrap)"
  have d: "data ?st = Some sample_response_no_bootstrap" by (simp add: sample_page_def)
  from tabs_loaded [OF d] obtain ts where ts: "tabs sample_env ?st = Inr ts" ..
  from tabs_has_tab [OF ts, of Bootstrap] obtain t where t: "t \<in> set ts" "tab_id t = Bootstrap" ..
  have v: "bootstrap_total (a sample_response_no_bootstrap) = 0"
    "bootstrap_total (b sample_response_no_bootstrap) = 0"
    by (simp_all add: sample_response_no_bootstrap_def)
  from bootstrap_summary_delta [OF d ts t] v
  have "summary t = Element ''div'' None
            [Text ''???'', Text '' '', Text ''->'', Text '' '', Text ''???'']"
    by simp
  with d ts t v show "\<exists>ts t. data ?st = Some sample_response_no_bootstrap
      \<and> tabs sample_env ?st = Inr ts
      \<and> t \<in> set ts \<and> tab_id t = Bootstrap
      \<and> bootstrap_total (a sample_response_no_bootstrap) = 0
      \<and> bootstrap_total (b sample_response_no_bootstrap) = 0
      \<and> summary t = Element ''div'' None
            [Text ''???'', Text '' '', Text ''->'', Text '' '', Text ''???'']"
    by auto
qed

subsection \<open>The summary table\<close>

text \<open>
  C9. The summary table component renders the table with the two header cells
  \<^verbatim>\<open>Range\<close> and \<^verbatim>\<open>Mean\<close> and the two cells holding the range and the mean exactly when
  \<^verbatim>\<open>all.count\<close> is positive, and the message \<^verbatim>\<open>No results\<close> otherwise; what it renders
  is a function of the \<^verbatim>\<open>all\<close> part of the summary alone.
\<close>

theorem TabSummaryTable_table_iff_count_positive:
  "(0 < count (all s) \<longrightarrow>
      (''table'', None) \<in> set (elements (TabSummaryTable e s))
      \<and> texts (TabSummaryTable e s) = [''Range'', ''Mean'']
      \<and> components (TabSummaryTable e s)
          = [SummaryRange_of (range' (all s)),
             SummaryPercentValue_of (percentClass e (average (all s))) (average (all s))])
   \<and> (\<not> 0 < count (all s) \<longrightarrow>
        TabSummaryTable e s = Element ''div'' None [Element ''span'' None [Text ''No results'']])
   \<and> ((''table'', None) \<in> set (elements (TabSummaryTable e s)) \<longleftrightarrow> 0 < count (all s))
   \<and> (''No results'' \<in> set (texts (TabSummaryTable e s)) \<longleftrightarrow> \<not> 0 < count (all s))
   \<and> (all s = all s' \<longrightarrow> TabSummaryTable e s = TabSummaryTable e s')"
  by (simp add: TabSummaryTable_def)

theorem TabSummaryTable_table_iff_count_positive_witness:
  "0 < count (all (sample_summary 3))
   \<and> texts (TabSummaryTable sample_env (sample_summary 3)) = [''Range'', ''Mean'']
   \<and> components (TabSummaryTable sample_env (sample_summary 3))
        = [SummaryRange_of (- 1, 2), SummaryPercentValue_of ''positive'' (1 / 2)]
   \<and> \<not> 0 < count (all (sample_summary 0))
   \<and> texts (TabSummaryTable sample_env (sample_summary 0)) = [''No results'']
   \<and> all (sample_summary 3) = all (sample_summary 3)"
  using TabSummaryTable_table_iff_count_positive [of "sample_summary 3" sample_env "sample_summary 3"]
    TabSummaryTable_table_iff_count_positive [of "sample_summary 0" sample_env "sample_summary 0"]
  by (simp add: sample_summary_def sample_env_def)

end
